theory Spec2Isabelle
  imports Complex_Main "HOL-Library.Log_Nat"
begin

section \<open>Python numbers\<close>

text \<open>
  Python's \<^verbatim>\<open>int\<close> is unbounded and is modelled by \<^typ>\<open>int\<close>. A Python
  \<^verbatim>\<open>float\<close> is an IEEE-754 binary64 number; it is modelled by its exact value, a
  \<^typ>\<open>rat\<close>, and every float operation of the source is the exact operation followed
  by \<open>fl\<close>, rounding to 53 significant bits, ties to even. The exponent range is
  not bounded: overflow (magnitudes beyond about 1.8e308) and subnormal numbers are
  outside the model.
\<close>

definition expo :: "rat \<Rightarrow> int" where
  \<comment> \<open>the binary exponent of a non-zero number: \<open>2 powi expo x \<le> \<bar>x\<bar> < 2 powi (expo x + 1)\<close>\<close>
  "expo x = (if 1 \<le> \<bar>x\<bar> then int (floorlog 2 (nat \<lfloor>\<bar>x\<bar>\<rfloor>)) - 1
             else - int (floorlog 2 (nat (\<lceil>1 / \<bar>x\<bar>\<rceil> - 1))))"

definition rhe :: "rat \<Rightarrow> int" where
  \<comment> \<open>round to the nearest integer, ties to the even one\<close>
  "rhe x = (let f = \<lfloor>x\<rfloor>; d = x - of_int f in
      if d < 1/2 then f else if 1/2 < d then f + 1 else if even f then f else f + 1)"

definition fl :: "rat \<Rightarrow> rat" where
  \<comment> \<open>the binary64 number nearest to \<open>x\<close>\<close>
  "fl x = (if x = 0 then 0 else
      let u = 2 powi (expo x - 52) in of_int (rhe (x / u)) * u)"

text \<open>
  The float literals of the source that are not binary64 numbers themselves.
\<close>

definition lit_100_4 :: rat where
  "lit_100_4 = fl (1004 / 10)"

definition lit_98_6 :: rat where
  "lit_98_6 = fl (986 / 10)"

definition lit_1_3 :: rat where
  "lit_1_3 = fl (13 / 10)"

definition lit_1_6 :: rat where
  "lit_1_6 = fl (16 / 10)"

definition lit_0_3 :: rat where
  "lit_0_3 = fl (3 / 10)"

definition py_round1 :: "rat \<Rightarrow> rat" where
  \<comment> \<open>\<^verbatim>\<open>round(x, 1)\<close> on a float: the correctly rounded one-decimal value, as a float\<close>
  "py_round1 x = fl (of_int (rhe (x * 10)) / 10)"

definition py_int :: "rat \<Rightarrow> int" where
  \<comment> \<open>\<^verbatim>\<open>int(x)\<close> on a float: truncation towards zero\<close>
  "py_int x = (if 0 \<le> x then \<lfloor>x\<rfloor> else \<lceil>x\<rceil>)"

section \<open>The synthetic-label rule cascade (ml/model.py, generate\_dataset)\<close>

text \<open>
  The body of the sampling loop assigns \<^verbatim>\<open>risk\<close> from the drawn features by an
  \<^verbatim>\<open>if/elif\<close> chain. \<^verbatim>\<open>medication_adherence\<close> and \<^verbatim>\<open>surgery_type\<close> are drawn
  but not read by the chain. The literal \<^verbatim>\<open>101.5\<close> is a binary64 number; \<^verbatim>\<open>100.4\<close>
  is not and denotes \<open>lit_100_4\<close>, the binary64 number nearest to it.
\<close>

definition risk_label :: "int \<Rightarrow> int \<Rightarrow> rat \<Rightarrow> int \<Rightarrow> int \<Rightarrow> int \<Rightarrow> int \<Rightarrow> int" where
  "risk_label pain_score swelling fever mobility wound_status days_post_surgery pain_trend =
     (if fever \<ge> 1015 / 10 \<or> wound_status = 2 then 3
      else if pain_score \<ge> 8 \<or> swelling = 3 then 2
      else if pain_score \<ge> 6 \<or> swelling = 2 \<or> fever \<ge> lit_100_4 then 1
      else if pain_trend = 1 \<and> pain_score \<ge> 5 then 1
      else if mobility \<le> 2 \<and> days_post_surgery > 14 then 2
      else 0)"

section \<open>Strings, dictionaries and errors\<close>

text \<open>
  A Python \<^verbatim>\<open>str\<close> is modelled by the \<^typ>\<open>string\<close> of its UTF-8 bytes; the few
  characters beyond ASCII that the source's texts use are named here.
\<close>

definition em_dash :: string where
  "em_dash = [CHR 0xE2, CHR 0x80, CHR 0x94]"

definition en_dash :: string where
  "en_dash = [CHR 0xE2, CHR 0x80, CHR 0x93]"

definition times_sign :: string where
  "times_sign = [CHR 0xC3, CHR 0x97]"

definition degree_sign :: string where
  "degree_sign = [CHR 0xC2, CHR 0xB0]"

datatype py_error = KeyError | IndexError

text \<open>
  The dictionaries that the decision functions read (the \<^verbatim>\<open>features\<close> argument, a
  stored log entry) are modelled by a record of the keys those functions read; \<open>None\<close>
  is an absent key. \<^verbatim>\<open>d.get(k, v)\<close> is \<open>dict_get (k d) v\<close>, and \<^verbatim>\<open>d[k]\<close> raises
  \<^verbatim>\<open>KeyError\<close> on an absent key.
\<close>

record entry =
  pain_score :: "int option"
  swelling :: "string option"
  fever :: "rat option"
  mobility :: "int option"
  wound_status :: "string option"
  medication_adherence :: "int option"
  pain_trend :: "string option"
  days_post_surgery :: "int option"
  surgery_type :: "string option"

definition dict_get :: "'a option \<Rightarrow> 'a \<Rightarrow> 'a" where
  "dict_get v d = (case v of None \<Rightarrow> d | Some x \<Rightarrow> x)"

definition dict_item :: "'a option \<Rightarrow> py_error + 'a" where
  "dict_item v = (case v of None \<Rightarrow> Inl KeyError | Some x \<Rightarrow> Inr x)"

definition DailyLog :: "int \<Rightarrow> string \<Rightarrow> rat \<Rightarrow> int \<Rightarrow> string \<Rightarrow> int \<Rightarrow> string \<Rightarrow> entry" where
  \<comment> \<open>\<^verbatim>\<open>log.dict()\<close> of a validated \<^verbatim>\<open>DailyLog\<close> (backend/main.py): every key of the
     report is present\<close>
  "DailyLog p sw f m w a t =
     \<lparr>pain_score = Some p, swelling = Some sw, fever = Some f, mobility = Some m,
      wound_status = Some w, medication_adherence = Some a, pain_trend = Some t,
      days_post_surgery = None, surgery_type = None\<rparr>"

section \<open>Rehab plans and the recovery score (ml/rehab\_engine.py)\<close>

record plan =
  exercises :: "string list"
  restrictions :: "string list"
  goals :: string

record rehab_plan = plan +
  recovery_phase :: string
  phase_note :: string

definition minor_low :: plan where
  "minor_low = \<lparr>exercises =
    [''Deep breathing exercises '' @ em_dash @ '' 10 reps '' @ times_sign @ '' 3 sets'',
     ''Gentle ankle circles '' @ em_dash @ '' 15 reps each side'',
     ''Seated leg raises '' @ em_dash @ '' 10 reps '' @ times_sign @ '' 2 sets'',
     ''Short walks (5-10 minutes) twice daily''],
   restrictions =
    [''Avoid heavy lifting > 5kg'',
     ''No strenuous activity''],
   goals = ''Regain baseline mobility within 1'' @ en_dash @ ''2 weeks''\<rparr>"

definition minor_moderate :: plan where
  "minor_moderate = \<lparr>exercises =
    [''Bed-based breathing exercises only'',
     ''Gentle foot pumps '' @ em_dash @ '' 20 reps hourly'',
     ''Passive range of motion with assistance''],
   restrictions =
    [''Rest primarily'',
     ''Elevate affected area'',
     ''Ice packs 20min every 2hrs''],
   goals = ''Reduce inflammation before progressing''\<rparr>"

definition minor_high :: plan where
  "minor_high = \<lparr>exercises =
    [''Rest only '' @ em_dash @ '' consult physiotherapist before any exercise''],
   restrictions =
    [''Strict rest'',
     ''No movement of affected area without guidance''],
   goals = ''Stabilize condition '' @ em_dash @ '' contact your doctor''\<rparr>"

definition minor_critical :: plan where
  "minor_critical = \<lparr>exercises =
    [''STOP all exercise '' @ em_dash @ '' seek emergency medical attention''],
   restrictions =
    [''Immediate medical consultation required''],
   goals = ''Emergency evaluation needed''\<rparr>"

definition ortho_low :: plan where
  "ortho_low = \<lparr>exercises =
    [''Quadriceps sets '' @ em_dash @ '' 10 reps '' @ times_sign @ '' 3 sets'',
     ''Straight leg raises '' @ em_dash @ '' 10 reps '' @ times_sign @ '' 3 sets'',
     ''Heel slides '' @ em_dash @ '' 15 reps '' @ times_sign @ '' 2 sets'',
     ''Standing balance (with support) '' @ em_dash @ '' 30 sec '' @ times_sign @ '' 3'',
     ''Stair climbing practice with railing''],
   restrictions =
    [''Weight bear as tolerated'',
     ''No deep bending > 90'' @ degree_sign,
     ''Use walker/crutches as prescribed''],
   goals = ''Restore joint range of motion and strength''\<rparr>"

definition ortho_moderate :: plan where
  "ortho_moderate = \<lparr>exercises =
    [''Isometric quad contractions only'',
     ''Ankle pumps '' @ em_dash @ '' 20 reps every hour'',
     ''Gentle ROM within pain-free range only''],
   restrictions =
    [''Elevate limb'',
     ''Ice 20min/2hrs'',
     ''Limit weight bearing''],
   goals = ''Control pain and swelling before progressing''\<rparr>"

definition ortho_high :: plan where
  "ortho_high = \<lparr>exercises =
    [''Pause exercise program '' @ em_dash @ '' reassess with physiotherapist''],
   restrictions =
    [''Non-weight bearing'',
     ''Splint/brace if available''],
   goals = ''Medical review required within 24 hours''\<rparr>"

definition ortho_critical :: plan where
  "ortho_critical = \<lparr>exercises =
    [''IMMEDIATE medical attention required''],
   restrictions =
    [''Call emergency services or go to ER''],
   goals = ''Possible complication '' @ em_dash @ '' do not delay''\<rparr>"

definition general_low :: plan where
  "general_low = \<lparr>exercises =
    [''Breathing exercises '' @ em_dash @ '' 5 min, 3'' @ times_sign @ '' daily'',
     ''Gentle walks increasing by 5 min each day'',
     ''Light stretching of major muscle groups'',
     ''Posture correction exercises''],
   restrictions =
    [''Avoid fatigue'',
     ''Stay hydrated'',
     ''Follow dietary guidelines''],
   goals = ''Gradual return to daily activities over 2'' @ en_dash @ ''4 weeks''\<rparr>"

definition general_moderate :: plan where
  "general_moderate = \<lparr>exercises =
    [''Seated breathing exercises only'',
     ''Gentle range of motion while seated''],
   restrictions =
    [''Rest primarily'',
     ''Monitor vitals'',
     ''Increase fluids''],
   goals = ''Stabilize and monitor closely''\<rparr>"

definition general_high :: plan where
  "general_high = \<lparr>exercises =
    [''Bed rest '' @ em_dash @ '' no exercise''],
   restrictions =
    [''Contact primary care physician today''],
   goals = ''Urgent medical review''\<rparr>"

definition general_critical :: plan where
  "general_critical = \<lparr>exercises =
    [''Seek emergency care immediately''],
   restrictions =
    [''Call ambulance or go to nearest ER''],
   goals = ''Emergency evaluation''\<rparr>"

definition injury_low :: plan where
  "injury_low = \<lparr>exercises =
    [''RICE protocol (Rest, Ice, Compression, Elevation)'',
     ''Gentle ROM exercises within pain-free range'',
     ''Progressive strengthening '' @ em_dash @ '' resistance band exercises'',
     ''Proprioception training '' @ em_dash @ '' balance board (week 2+)''],
   restrictions =
    [''Avoid re-injury'',
     ''Tape/brace support'',
     ''Gradual return to sport''],
   goals = ''Full functional recovery in 3'' @ en_dash @ ''8 weeks''\<rparr>"

definition injury_moderate :: plan where
  "injury_moderate = \<lparr>exercises =
    [''Continue RICE protocol'',
     ''Gentle stretching only'',
     ''No strengthening until pain reduces''],
   restrictions =
    [''Complete rest from activity'',
     ''Ice every 2 hours''],
   goals = ''Reduce acute inflammation''\<rparr>"

definition injury_high :: plan where
  "injury_high = \<lparr>exercises =
    [''Rest '' @ em_dash @ '' possible re-injury or complication''],
   restrictions =
    [''Imaging may be required '' @ em_dash @ '' visit clinic''],
   goals = ''Rule out fracture or tendon damage''\<rparr>"

definition injury_critical :: plan where
  "injury_critical = \<lparr>exercises =
    [''Immediate medical evaluation''],
   restrictions =
    [''Do not move injury '' @ em_dash @ '' immobilize and seek ER''],
   goals = ''Emergency assessment required''\<rparr>"

definition stroke_low :: plan where
  "stroke_low = \<lparr>exercises =
    [''Mirror therapy '' @ em_dash @ '' 15 min daily'',
     ''Hand grip exercises with therapy putty'',
     ''Seated marching '' @ em_dash @ '' 2 min '' @ times_sign @ '' 3 sets'',
     ''Speech and word recall exercises'',
     ''Fine motor tasks '' @ em_dash @ '' buttoning, picking objects''],
   restrictions =
    [''Supervision required for all exercises'',
     ''Avoid fatigue'',
     ''Fall prevention protocol''],
   goals = ''Neuroplasticity training '' @ em_dash @ '' rebuild motor pathways''\<rparr>"

definition stroke_moderate :: plan where
  "stroke_moderate = \<lparr>exercises =
    [''Passive ROM only with caregiver assistance'',
     ''Breathing exercises'',
     ''Visual tracking exercises''],
   restrictions =
    [''Bed rest'',
     ''Supervision at all times''],
   goals = ''Stabilize before progressing rehab''\<rparr>"

definition stroke_high :: plan where
  "stroke_high = \<lparr>exercises =
    [''Pause rehab program''],
   restrictions =
    [''Neurologist review required urgently''],
   goals = ''Reassess neurological status''\<rparr>"

definition stroke_critical :: plan where
  "stroke_critical = \<lparr>exercises =
    [''Emergency services '' @ em_dash @ '' possible secondary stroke''],
   restrictions =
    [''FAST protocol: Face drooping, Arm weakness, Speech difficulty, Time to call emergency''],
   goals = ''Immediate emergency evaluation''\<rparr>"

definition REHAB_PLANS :: "(string \<times> (string \<times> plan) list) list" where
  "REHAB_PLANS =
    [(''Minor Surgery'',
      [(''Low'', minor_low),
       (''Moderate'', minor_moderate),
       (''High'', minor_high),
       (''Critical'', minor_critical)]),
     (''Orthopedic Surgery'',
      [(''Low'', ortho_low),
       (''Moderate'', ortho_moderate),
       (''High'', ortho_high),
       (''Critical'', ortho_critical)]),
     (''General Discharge'',
      [(''Low'', general_low),
       (''Moderate'', general_moderate),
       (''High'', general_high),
       (''Critical'', general_critical)]),
     (''Injury Recovery'',
      [(''Low'', injury_low),
       (''Moderate'', injury_moderate),
       (''High'', injury_high),
       (''Critical'', injury_critical)]),
     (''Stroke Rehab'',
      [(''Low'', stroke_low),
       (''Moderate'', stroke_moderate),
       (''High'', stroke_high),
       (''Critical'', stroke_critical)])]"

definition get_rehab_plan :: "string \<Rightarrow> string \<Rightarrow> int \<Rightarrow> py_error + rehab_plan" where
  "get_rehab_plan surgery_type' risk_level days_post_surgery' =
     (case map_of REHAB_PLANS ''General Discharge'' of
        None \<Rightarrow> Inl KeyError
      | Some general \<Rightarrow>
          let plans = dict_get (map_of REHAB_PLANS surgery_type') general in
          (case map_of plans ''Low'' of
             None \<Rightarrow> Inl KeyError
           | Some low \<Rightarrow>
               let base_plan = dict_get (map_of plans risk_level) low;
                   (phase, note) =
                     (if days_post_surgery' \<le> 7 then
                        (''Acute Phase (Days 1'' @ en_dash @ ''7)'',
                         ''Focus on rest, pain management, and basic mobility.'')
                      else if days_post_surgery' \<le> 21 then
                        (''Sub-Acute Phase (Days 8'' @ en_dash @ ''21)'',
                         ''Begin progressive strengthening. Gentle exercises allowed.'')
                      else if days_post_surgery' \<le> 42 then
                        (''Functional Recovery (Days 22'' @ en_dash @ ''42)'',
                         ''Increase activity gradually. Focus on functional tasks.'')
                      else
                        (''Return to Activity (Day 42+)'',
                         ''Progressive loading. Prepare for full daily activities.''))
               in Inr (plan.extend base_plan
                         \<lparr>recovery_phase = phase, phase_note = note\<rparr>)))"

text \<open>
  \<^verbatim>\<open>get_recovery_score\<close>: with one entry the score starts as the float \<^verbatim>\<open>50.0\<close>, so
  both additions are float additions of a converted \<^verbatim>\<open>int\<close>; with two or more entries
  the score is an \<^verbatim>\<open>int\<close> throughout and \<^verbatim>\<open>round\<close> returns it unchanged.
\<close>

definition get_recovery_score :: "entry list \<Rightarrow> rat" where
  "get_recovery_score logs =
     (if logs = [] then 0
      else if length logs = 1 then
        (let entry = logs ! 0;
             score = 50;
             score = fl (score + fl (of_int ((10 - dict_get (pain_score entry) 5) * 3)));
             score = fl (score + fl (of_int (dict_get (mobility entry) 5 * 2)))
         in min (max (py_round1 score) 0) 100)
      else
        (let first = logs ! 0;
             latest = last logs;
             pain_improvement = dict_get (pain_score first) 5 - dict_get (pain_score latest) 5;
             mobility_improvement = dict_get (mobility latest) 5 - dict_get (mobility first) 5;
             score = 40;
             score = score + pain_improvement * 5;
             score = score + mobility_improvement * 3;
             score = (if dict_get (fever latest) (lit_98_6) \<ge> lit_100_4
                      then score - 15 else score);
             score = (if swelling latest \<in> {Some ''Moderate'', Some ''Severe''}
                      then score - 10 else score)
         in of_int (min (max score 0) 100)))"

section \<open>The alert rules (backend/main.py)\<close>

text \<open>
  \<^verbatim>\<open>patient\<close> is the stored patient record, of which the rules read the name;
  \<^verbatim>\<open>risk_result\<close> is the dictionary returned by \<^verbatim>\<open>predict_risk\<close>. The timestamp
  of an alert is read from the clock and is not part of the model.
\<close>

record patient =
  name :: string

record risk_result =
  risk_level :: string
  risk_index :: int
  confidence :: rat
  color :: string
  probabilities :: "(string \<times> rat) list"

record alert =
  alert_type :: string
  message :: string
  alert_patient :: string

definition empty_dict :: entry where
  "empty_dict =
     \<lparr>pain_score = None, swelling = None, fever = None, mobility = None,
      wound_status = None, medication_adherence = None, pain_trend = None,
      days_post_surgery = None, surgery_type = None\<rparr>"

definition last_n :: "nat \<Rightarrow> 'a list \<Rightarrow> 'a list" where
  \<comment> \<open>the slice \<^verbatim>\<open>xs[-n:]\<close>\<close>
  "last_n n xs = drop (length xs - n) xs"

definition check_alerts :: "entry list \<Rightarrow> patient \<Rightarrow> risk_result \<Rightarrow> py_error + alert list" where
  "check_alerts logs patient risk_result =
     (let alerts = [];
          alerts = (if risk_index risk_result \<ge> 3 then
                      alerts @ [\<lparr>alert_type = ''CRITICAL'',
                                 message = [CHR 0xF0, CHR 0x9F, CHR 0x9A, CHR 0xA8] @ '' CRITICAL risk detected for patient '' @ name patient
                                           @ ''. Immediate medical attention required.'',
                                 alert_patient = name patient\<rparr>]
                    else alerts)
      in case (if length logs \<ge> 3 then
                 (case those (map pain_score (last_n 3 logs)) of
                    None \<Rightarrow> Inl KeyError
                  | Some last3_pain \<Rightarrow>
                      Inr (if last3_pain ! 0 < last3_pain ! 1 \<and> last3_pain ! 1 < last3_pain ! 2 then
                             alerts @ [\<lparr>alert_type = ''ESCALATION'',
                                        message = [CHR 0xE2, CHR 0x9A, CHR 0xA0, CHR 0xEF, CHR 0xB8, CHR 0x8F] @ '' Pain has increased for 3 consecutive days for '' @ name patient
                                                  @ ''. Doctor review needed.'',
                                        alert_patient = name patient\<rparr>]
                           else alerts))
               else Inr alerts) of
           Inl e \<Rightarrow> Inl e
         | Inr alerts \<Rightarrow>
             (let latest = (if logs \<noteq> [] then last logs else empty_dict)
              in Inr (if dict_get (fever latest) (lit_98_6) \<ge> lit_100_4
                         \<and> swelling latest \<in> {Some ''Moderate'', Some ''Severe''} then
                        alerts @ [\<lparr>alert_type = ''FEVER_SWELLING'',
                                   message = [CHR 0xF0, CHR 0x9F, CHR 0x8C, CHR 0xA1, CHR 0xEF, CHR 0xB8, CHR 0x8F] @ '' Fever + Swelling combination detected for '' @ name patient
                                             @ ''. Possible infection '' @ em_dash @ '' contact doctor.'',
                                   alert_patient = name patient\<rparr>]
                      else alerts)))"

section \<open>Recovery days, complication probability and pain pattern (ml/ai\_features.py)\<close>

text \<open>
  A text built by an f-string around a number keeps the number: \<open>Fmt a x b\<close> is the
  text \<open>a\<close>, then \<open>x\<close> as \<^verbatim>\<open>str\<close> prints it, then \<open>b\<close>.
\<close>

datatype ftext = Text string | Fmt string rat string

definition RECOVERY_BASE_DAYS :: "(string \<times> int) list" where
  "RECOVERY_BASE_DAYS =
     [(''Minor Surgery'', 14), (''Orthopedic Surgery'', 60), (''General Discharge'', 21),
      (''Injury Recovery'', 30), (''Stroke Rehab'', 90)]"

record recovery_days =
  estimated_total_days :: int
  days_completed :: int
  days_remaining :: int
  progress_pct :: rat
  milestone :: string

text \<open>
  \<^verbatim>\<open>predict_recovery_days\<close>. The literals \<^verbatim>\<open>1.3\<close>, \<^verbatim>\<open>1.6\<close> and \<^verbatim>\<open>0.3\<close> denote the
  nearest binary64 numbers; \<^verbatim>\<open>/\<close> on two \<^verbatim>\<open>int\<close>s is the correctly rounded quotient;
  the product is evaluated from the left. The key \<^verbatim>\<open>expected_recovery_date\<close> is
  computed from today's date and is not part of the model.
\<close>

definition predict_recovery_days :: "string \<Rightarrow> string \<Rightarrow> int \<Rightarrow> int \<Rightarrow> int \<Rightarrow> recovery_days" where
  "predict_recovery_days surgery_type' risk_level' days_post pain_score' mobility' =
     (let base = dict_get (map_of RECOVERY_BASE_DAYS surgery_type') 30;
          risk_multiplier = [(''Low'', 1), (''Moderate'', lit_1_3),
                             (''High'', lit_1_6), (''Critical'', 2)];
          multiplier = dict_get (map_of risk_multiplier risk_level') 1;
          pain_factor = fl (1 + fl (fl (of_int pain_score' / 10) * (1 / 2)));
          mobility_factor = fl (1 - fl (fl (of_int mobility' / 10) * lit_0_3));
          estimated_total =
            py_int (fl (fl (fl (fl (of_int base) * multiplier) * pain_factor) * mobility_factor));
          remaining = max 0 (estimated_total - days_post);
          progress_pct' =
            (if estimated_total > 0 then
               min 100 (py_round1 (fl (fl (of_int days_post / of_int estimated_total) * 100)))
             else 100);
          milestone' =
            (if progress_pct' \<ge> 90 then [CHR 0xF0, CHR 0x9F, CHR 0x8E, CHR 0x89] @ '' Almost fully recovered!''
             else if progress_pct' \<ge> 70 then [CHR 0xF0, CHR 0x9F, CHR 0x92, CHR 0xAA] @ '' Great progress '' @ em_dash @ '' final stretch!''
             else if progress_pct' \<ge> 50 then [CHR 0xF0, CHR 0x9F, CHR 0x93, CHR 0x88] @ '' Halfway there '' @ em_dash @ '' keep going!''
             else if progress_pct' \<ge> 25 then [CHR 0xF0, CHR 0x9F, CHR 0x8C, CHR 0xB1] @ '' Early recovery '' @ em_dash @ '' stay consistent!''
             else [CHR 0xF0, CHR 0x9F, CHR 0x8F, CHR 0xA5] @ '' Just started '' @ em_dash @ '' follow your plan carefully.'')
      in \<lparr>estimated_total_days = estimated_total, days_completed = days_post,
          days_remaining = remaining, progress_pct = progress_pct', milestone = milestone'\<rparr>)"

record complication =
  probability :: rat
  category :: string
  color :: string
  advice :: string
  next_48hr_risk :: ftext

text \<open>
  \<^verbatim>\<open>calculate_complication_probability\<close>. \<^verbatim>\<open>score\<close> is a float from the first
  addition on. A fever or trend branch that is not taken leaves \<^verbatim>\<open>score\<close> as it is.
\<close>

definition calculate_complication_probability :: "entry \<Rightarrow> complication" where
  "calculate_complication_probability features =
     (let score = 0;
          pain = dict_get (pain_score features) 0;
          fever' = dict_get (fever features) (lit_98_6);
          swelling' = dict_get (swelling features) ''None'';
          wound = dict_get (wound_status features) ''Clean/Healing'';
          trend = dict_get (pain_trend features) ''Stable'';
          mobility' = dict_get (mobility features) 5;
          adherence = dict_get (medication_adherence features) 10;
          score = fl (score + fl (fl (of_int pain / 10) * 25));
          score = (if fever' \<ge> 103 then fl (score + 25)
                   else if fever' \<ge> 1015 / 10 then fl (score + 20)
                   else if fever' \<ge> lit_100_4 then fl (score + 12)
                   else if fever' \<ge> 995 / 10 then fl (score + 5)
                   else score);
          sw = [(''None'', 0), (''Mild'', 5), (''Moderate'', 10), (''Severe'', 15)];
          score = fl (score + of_int (dict_get (map_of sw swelling') 0));
          wnd = [(''Clean/Healing'', 0), (''Redness'', 8), (''Discharge/Open'', 15)];
          score = fl (score + of_int (dict_get (map_of wnd wound) 0));
          score = (if trend = ''Worsening'' then fl (score + 10)
                   else if trend = ''Stable'' then fl (score + 2)
                   else score);
          score = (if mobility' \<le> 2 then fl (score + 5) else score);
          score = fl (score - fl (fl (of_int adherence / 10) * 8));
          score = max 0 (min 100 (py_round1 score));
          (category', color', advice') =
            (if score < 20 then
               (''Very Low'', ''#22c55e'',
                ''Your recovery is on track. Maintain your current routine.'')
             else if score < 40 then
               (''Low'', ''#86efac'',
                ''Minor concerns detected. Follow your rehab plan carefully.'')
             else if score < 60 then
               (''Moderate'', ''#f59e0b'',
                ''Some risk factors present. Contact your doctor if symptoms worsen.'')
             else if score < 80 then
               (''High'', ''#f97316'',
                ''Multiple risk factors detected. Schedule a doctor visit today.'')
             else
               (''Critical'', ''#ef4444'',
                ''URGENT: High complication risk. Contact doctor immediately.''))
      in \<lparr>probability = score, category = category', color = color', advice = advice',
          next_48hr_risk = Fmt [] score ''% chance of complication in next 48 hours''\<rparr>)"

record pain_pattern =
  pattern :: string
  trend :: string
  icon :: string
  color :: string
  description :: ftext
  recommendation :: string
  scores :: "int list"
  average :: "rat option"
  peak_score :: "int option"
  best_score :: "int option"
  trend_change :: "rat option"

text \<open>
  \<^verbatim>\<open>analyze_pain_pattern\<close>. The dictionary returned for fewer than two logs has no
  \<^verbatim>\<open>scores\<close>, \<^verbatim>\<open>average\<close>, \<^verbatim>\<open>peak_score\<close>, \<^verbatim>\<open>best_score\<close> and \<^verbatim>\<open>trend_change\<close> keys.
  With three or more scores \<^verbatim>\<open>trend_diff\<close> is a float, the difference of two rounded
  quotients; with two it is an \<^verbatim>\<open>int\<close>, which \<^verbatim>\<open>round\<close> returns unchanged.
  \<^verbatim>\<open>peak_day\<close> and \<^verbatim>\<open>best_day\<close> are computed by the source but not returned.
\<close>

definition trend_diff_of :: "int list \<Rightarrow> rat" where
  "trend_diff_of pain_scores =
     (if length pain_scores \<ge> 3 then
        (let recent_avg = fl (of_int (sum_list (last_n 3 pain_scores)) / 3);
             earlier_avg = fl (of_int (sum_list (take 3 pain_scores)) / 3)
         in fl (recent_avg - earlier_avg))
      else of_int (last pain_scores - pain_scores ! 0))"

definition round_trend :: "int list \<Rightarrow> rat \<Rightarrow> rat" where
  \<comment> \<open>\<^verbatim>\<open>round(trend_diff, 1)\<close>\<close>
  "round_trend pain_scores trend_diff =
     (if length pain_scores \<ge> 3 then py_round1 trend_diff else trend_diff)"

definition analyze_pain_pattern :: "entry list \<Rightarrow> pain_pattern" where
  "analyze_pain_pattern logs =
     (if length logs < 2 then
        \<lparr>pattern = ''Insufficient Data'', trend = ''unknown'', icon = [CHR 0xF0, CHR 0x9F, CHR 0x93, CHR 0x8A],
         color = ''#8BAFC8'',
         description = Text ''Log at least 2 days of data to see pain pattern analysis.'',
         recommendation = ''Continue logging daily symptoms.'',
         scores = [], average = None, peak_score = None, best_score = None,
         trend_change = None\<rparr>
      else
        (let pain_scores = map (\<lambda>l. dict_get (pain_score l) 0) (last_n 7 logs);
             trend_diff = trend_diff_of pain_scores;
             diffs = map (\<lambda>i. pain_scores ! (i + 1) - pain_scores ! i) [0..<length pain_scores - 1];
             increasing = length (filter (\<lambda>d. d > 0) diffs);
             decreasing = length (filter (\<lambda>d. d < 0) diffs);
             stable = length (filter (\<lambda>d. d = 0) diffs);
             (pattern', trend', icon', color', desc, rec) =
               (if trend_diff \<le> - 2 \<and> decreasing \<ge> increasing then
                  (''Steady Improvement'', ''improving'', [CHR 0xF0, CHR 0x9F, CHR 0x93, CHR 0x89], ''#22c55e'',
                   Fmt ''Your pain has decreased by '' \<bar>round_trend pain_scores trend_diff\<bar>
                       '' points. Excellent recovery progress!'',
                   ''Continue your current rehab plan. You'' @ [CHR 0x27] @ ''re on the right track.'')
                else if trend_diff \<ge> 2 \<and> increasing \<ge> decreasing then
                  (''Worsening Trend'', ''worsening'', [CHR 0xF0, CHR 0x9F, CHR 0x93, CHR 0x88], ''#ef4444'',
                   Fmt ''Pain has increased by '' (round_trend pain_scores trend_diff)
                       '' points over recent days. This needs attention.'',
                   ''Contact your doctor. Reduce activity intensity immediately.'')
                else if \<bar>trend_diff\<bar> \<le> 1 \<and> stable \<ge> 2 then
                  (''Plateau'', ''stable'', [CHR 0xE2, CHR 0x9E, CHR 0xA1, CHR 0xEF, CHR 0xB8, CHR 0x8F], ''#f59e0b'',
                   Text ''Pain score has been stable. Recovery may have reached a plateau.'',
                   ''Discuss with your physiotherapist about progressing your exercises.'')
                else if increasing > 0 \<and> decreasing > 0 then
                  (''Fluctuating'', ''fluctuating'', [CHR 0xE3, CHR 0x80, CHR 0xB0, CHR 0xEF, CHR 0xB8, CHR 0x8F], ''#f97316'',
                   Text ''Pain is going up and down inconsistently. Possible over-exertion.'',
                   ''Rest more between exercise sessions. Avoid pushing through pain.'')
                else
                  (''Early Recovery'', ''early'', [CHR 0xF0, CHR 0x9F, CHR 0x8C, CHR 0xB1], ''#00b4ff'',
                   Text ''Not enough data yet for full pattern analysis.'',
                   ''Keep logging daily. Pattern will emerge in 3-5 days.''))
         in \<lparr>pattern = pattern', trend = trend', icon = icon', color = color',
             description = desc, recommendation = rec, scores = pain_scores,
             average = Some (py_round1 (fl (of_int (sum_list pain_scores)
                                            / of_nat (length pain_scores)))),
             peak_score = Some (Max (set pain_scores)),
             best_score = Some (Min (set pain_scores)),
             trend_change = Some (round_trend pain_scores trend_diff)\<rparr>))"

section \<open>Risk inference (ml/model.py, predict\_risk)\<close>

text \<open>
  The trained classifier is loaded from a file (or trained on first use) and is code of
  scikit-learn; it is a parameter of the model, with the two methods that
  \<^verbatim>\<open>predict_risk\<close> calls. \<open>feature_row\<close> is the list literal that is handed to
  \<^verbatim>\<open>np.array\<close>; indexing \<^verbatim>\<open>features\<close> raises \<^verbatim>\<open>KeyError\<close> on an absent key.
  Indexing the probabilities accepts a negative index, as numpy does, and raises
  \<^verbatim>\<open>IndexError\<close> out of range.
\<close>

type_synonym feature_row = "int \<times> int \<times> rat \<times> int \<times> int \<times> int \<times> int \<times> int \<times> int"

record classifier =
  predict :: "feature_row \<Rightarrow> int"
  predict_proba :: "feature_row \<Rightarrow> rat list"

definition RISK_LABELS :: "(int \<times> string) list" where
  "RISK_LABELS = [(0, ''Low''), (1, ''Moderate''), (2, ''High''), (3, ''Critical'')]"

definition RISK_COLORS :: "(int \<times> string) list" where
  "RISK_COLORS = [(0, ''#22c55e''), (1, ''#f59e0b''), (2, ''#f97316''), (3, ''#ef4444'')]"

definition surgery_map :: "(string \<times> int) list" where
  "surgery_map = [(''Minor Surgery'', 0), (''Orthopedic Surgery'', 1),
                  (''General Discharge'', 2), (''Injury Recovery'', 3), (''Stroke Rehab'', 4)]"

definition swelling_map :: "(string \<times> int) list" where
  "swelling_map = [(''None'', 0), (''Mild'', 1), (''Moderate'', 2), (''Severe'', 3)]"

definition wound_map :: "(string \<times> int) list" where
  "wound_map = [(''Clean/Healing'', 0), (''Redness'', 1), (''Discharge/Open'', 2)]"

definition trend_map :: "(string \<times> int) list" where
  "trend_map = [(''Improving'', - 1), (''Stable'', 0), (''Worsening'', 1)]"

definition feature_row :: "entry \<Rightarrow> py_error + feature_row" where
  "feature_row features =
     (case (pain_score features, swelling features, fever features, mobility features,
            wound_status features, medication_adherence features,
            days_post_surgery features, surgery_type features, pain_trend features) of
        (Some p, Some sw, Some f, Some m, Some w, Some a, Some d, Some s, Some t) \<Rightarrow>
          Inr (p, dict_get (map_of swelling_map sw) 0, f, m, dict_get (map_of wound_map w) 0,
               a, d, dict_get (map_of surgery_map s) 2, dict_get (map_of trend_map t) 0)
      | _ \<Rightarrow> Inl KeyError)"

definition py_index :: "'a list \<Rightarrow> int \<Rightarrow> py_error + 'a" where
  "py_index xs i =
     (if 0 \<le> i \<and> i < int (length xs) then Inr (xs ! nat i)
      else if i < 0 \<and> - int (length xs) \<le> i then Inr (xs ! nat (int (length xs) + i))
      else Inl IndexError)"

fun label_probabilities :: "int \<Rightarrow> rat list \<Rightarrow> py_error + (string \<times> rat) list" where
  \<comment> \<open>the dictionary comprehension over \<^verbatim>\<open>enumerate(probabilities)\<close>\<close>
  "label_probabilities i [] = Inr []"
| "label_probabilities i (p # ps) =
     (case dict_item (map_of RISK_LABELS i) of
        Inl e \<Rightarrow> Inl e
      | Inr l \<Rightarrow>
          (case label_probabilities (i + 1) ps of
             Inl e \<Rightarrow> Inl e
           | Inr rest \<Rightarrow> Inr ((l, py_round1 (fl (p * 100))) # rest)))"

definition predict_risk :: "classifier \<Rightarrow> entry \<Rightarrow> py_error + risk_result" where
  "predict_risk model features =
     (case feature_row features of
        Inl e \<Rightarrow> Inl e
      | Inr X \<Rightarrow>
          (let risk_idx = predict model X;
               probabilities' = predict_proba model X
           in case py_index probabilities' risk_idx of
                Inl e \<Rightarrow> Inl e
              | Inr p \<Rightarrow>
                  (let confidence' = py_round1 (fl (p * 100))
                   in case dict_item (map_of RISK_LABELS risk_idx) of
                        Inl e \<Rightarrow> Inl e
                      | Inr label \<Rightarrow>
                          (case dict_item (map_of RISK_COLORS risk_idx) of
                             Inl e \<Rightarrow> Inl e
                           | Inr color' \<Rightarrow>
                               (case label_probabilities 0 probabilities' of
                                  Inl e \<Rightarrow> Inl e
                                | Inr probs \<Rightarrow>
                                    Inr \<lparr>risk_level = label, risk_index = risk_idx,
                                         confidence = confidence', color = color',
                                         probabilities = probs\<rparr>)))))"

section \<open>Reference definitions\<close>

text \<open>
  The definitions of this section are not translated from the source: they say, in the
  words of the specification, what the source functions are compared with.
\<close>

subsection \<open>Rehab plan\<close>

definition rehab_cell :: "string \<Rightarrow> string \<Rightarrow> plan option" where
  \<comment> \<open>the cell of the static table for a pathway and a risk tier\<close>
  "rehab_cell s r = (case map_of REHAB_PLANS s of None \<Rightarrow> None | Some row \<Rightarrow> map_of row r)"

definition known_pathway :: "string \<Rightarrow> bool" where
  "known_pathway s = (s \<in> {''Minor Surgery'', ''Orthopedic Surgery'', ''General Discharge'',
                            ''Injury Recovery'', ''Stroke Rehab''})"

definition known_tier :: "string \<Rightarrow> bool" where
  "known_tier r = (r \<in> {''Low'', ''Moderate'', ''High'', ''Critical''})"

definition phase_of :: "int \<Rightarrow> string \<times> string" where
  \<comment> \<open>the recovery phase and its note, by the breakpoints 7, 21 and 42\<close>
  "phase_of d =
     (if d \<le> 7 then
        (''Acute Phase (Days 1'' @ en_dash @ ''7)'',
         ''Focus on rest, pain management, and basic mobility.'')
      else if d \<le> 21 then
        (''Sub-Acute Phase (Days 8'' @ en_dash @ ''21)'',
         ''Begin progressive strengthening. Gentle exercises allowed.'')
      else if d \<le> 42 then
        (''Functional Recovery (Days 22'' @ en_dash @ ''42)'',
         ''Increase activity gradually. Focus on functional tasks.'')
      else
        (''Return to Activity (Day 42+)'',
         ''Progressive loading. Prepare for full daily activities.''))"

subsection \<open>Alert rules\<close>

definition escalating :: "entry list \<Rightarrow> bool" where
  \<comment> \<open>the last three pain scores of the history are strictly increasing\<close>
  "escalating logs =
     (length logs \<ge> 3 \<and>
      (case map pain_score (last_n 3 logs) of
         [Some a, Some b, Some c] \<Rightarrow> a < b \<and> b < c
       | _ \<Rightarrow> False))"

definition fever_with_swelling :: "entry list \<Rightarrow> bool" where
  \<comment> \<open>the latest entry has a fever of at least 100.4 and moderate or severe swelling\<close>
  "fever_with_swelling logs =
     (logs \<noteq> [] \<and>
      (case fever (last logs) of None \<Rightarrow> False | Some f \<Rightarrow> f \<ge> 1004 / 10) \<and>
      swelling (last logs) \<in> {Some ''Moderate'', Some ''Severe''})"

definition readable :: "entry list \<Rightarrow> bool" where
  \<comment> \<open>the entries that the rules index carry a pain score, and the latest fever, if any, is a binary64 number\<close>
  "readable logs =
     ((\<forall>l \<in> set (last_n 3 logs). pain_score l \<noteq> None) \<and>
      (\<forall>l \<in> set (last_n 1 logs). case fever l of None \<Rightarrow> True | Some f \<Rightarrow> fl f = f))"

definition report :: "int \<Rightarrow> rat \<Rightarrow> string \<Rightarrow> entry" where
  \<comment> \<open>a stored report with the given pain score, fever and swelling\<close>
  "report p f sw = DailyLog p sw f 5 ''Clean/Healing'' 10 ''Stable''"

subsection \<open>Feature encoding\<close>

text \<open>
  \<open>risk_features\<close> is the dictionary that \<^verbatim>\<open>submit_daily_log\<close> (backend/main.py) builds
  from a validated report, the day count and the patient's pathway, and hands to
  \<^verbatim>\<open>predict_risk\<close>. The four code functions are the category tables of the
  specification, with the default code for every other string.
\<close>

definition risk_features ::
  "int \<Rightarrow> string \<Rightarrow> rat \<Rightarrow> int \<Rightarrow> string \<Rightarrow> int \<Rightarrow> string \<Rightarrow> int \<Rightarrow> string \<Rightarrow> entry" where
  "risk_features p sw f m w a t days_post s =
     \<lparr>pain_score = Some p, swelling = Some sw, fever = Some f, mobility = Some m,
      wound_status = Some w, medication_adherence = Some a, pain_trend = Some t,
      days_post_surgery = Some days_post, surgery_type = Some s\<rparr>"

definition swelling_code :: "string \<Rightarrow> int" where
  "swelling_code sw =
     (if sw = ''Mild'' then 1 else if sw = ''Moderate'' then 2 else if sw = ''Severe'' then 3
      else 0)"

definition wound_code :: "string \<Rightarrow> int" where
  "wound_code w = (if w = ''Redness'' then 1 else if w = ''Discharge/Open'' then 2 else 0)"

definition trend_code :: "string \<Rightarrow> int" where
  "trend_code t = (if t = ''Improving'' then - 1 else if t = ''Worsening'' then 1 else 0)"

definition pathway_code :: "string \<Rightarrow> int" where
  "pathway_code s =
     (if s = ''Minor Surgery'' then 0 else if s = ''Orthopedic Surgery'' then 1
      else if s = ''Injury Recovery'' then 3 else if s = ''Stroke Rehab'' then 4 else 2)"

subsection \<open>Scores\<close>

definition clamp100 :: "rat \<Rightarrow> rat" where
  \<comment> \<open>clamping to the interval from 0 to 100\<close>
  "clamp100 x = (if x < 0 then 0 else if 100 < x then 100 else x)"

definition round_dec1 :: "rat \<Rightarrow> rat" where
  \<comment> \<open>rounding to one decimal, exactly\<close>
  "round_dec1 x = of_int (rhe (x * 10)) / 10"

definition fever_penalty :: "rat \<Rightarrow> int" where
  \<comment> \<open>15 when the latest fever is at least 100.4\<close>
  "fever_penalty f = (if f \<ge> 1004 / 10 then 15 else 0)"

definition swelling_penalty :: "string \<Rightarrow> int" where
  \<comment> \<open>10 when the latest swelling is moderate or severe\<close>
  "swelling_penalty sw = (if sw = ''Moderate'' \<or> sw = ''Severe'' then 10 else 0)"

subsection \<open>Recovery days\<close>

definition exact_total :: "int \<Rightarrow> rat \<Rightarrow> int \<Rightarrow> int \<Rightarrow> int" where
  \<comment> \<open>baseline times risk multiplier times pain factor times mobility factor, truncated,
     in exact arithmetic\<close>
  "exact_total base mult p m =
     \<lfloor>of_int base * mult * (1 + of_int p / 10 * (1 / 2)) * (1 - of_int m / 10 * (3 / 10))\<rfloor>"

subsection \<open>Pain pattern\<close>

definition exact_trend_diff :: "int list \<Rightarrow> rat" where
  \<comment> \<open>mean of the last three minus mean of the first three scores (last minus first for two scores), in exact arithmetic\<close>
  "exact_trend_diff ps =
     (if length ps \<ge> 3 then
        of_int (sum_list (last_n 3 ps)) / 3 - of_int (sum_list (take 3 ps)) / 3
      else of_int (last ps - ps ! 0))"

definition step_diffs :: "int list \<Rightarrow> int list" where
  \<comment> \<open>the differences of consecutive scores\<close>
  "step_diffs ps = map (\<lambda>(a, b). b - a) (zip ps (tl ps))"

definition classify :: "rat \<Rightarrow> int list \<Rightarrow> string" where
  \<comment> \<open>the five patterns, first match wins\<close>
  "classify td ds =
     (let increasing = length (filter (\<lambda>d. 0 < d) ds);
          decreasing = length (filter (\<lambda>d. d < 0) ds);
          stable = length (filter (\<lambda>d. d = 0) ds)
      in if td \<le> - 2 \<and> increasing \<le> decreasing then ''Steady Improvement''
         else if 2 \<le> td \<and> decreasing \<le> increasing then ''Worsening Trend''
         else if \<bar>td\<bar> \<le> 1 \<and> 2 \<le> stable then ''Plateau''
         else if 0 < increasing \<and> 0 < decreasing then ''Fluctuating''
         else ''Early Recovery'')"

section \<open>Properties of rounding\<close>

subsection \<open>Rounding to an integer\<close>

lemma rhe_of_int: "rhe (of_int n) = n"
  by (simp add: rhe_def)

lemma rhe_err: "\<bar>of_int (rhe x) - x\<bar> \<le> 1/2"
proof -
  have "of_int \<lfloor>x\<rfloor> \<le> x" "x < of_int \<lfloor>x\<rfloor> + 1" by linarith+
  then show ?thesis unfolding rhe_def Let_def by (simp add: abs_le_iff)
qed

lemma rhe_unique:
  assumes "\<bar>x - of_int n\<bar> < 1/2"
  shows "rhe x = n"
proof -
  have lo: "of_int n - 1/2 < x" and hi: "x < of_int n + 1/2"
    using assms by linarith+
  have "\<lfloor>x\<rfloor> = n \<or> \<lfloor>x\<rfloor> = n - 1"
  proof -
    have "of_int (n - 1) \<le> x" using lo by simp
    then have "n - 1 \<le> \<lfloor>x\<rfloor>" by (simp only: le_floor_iff)
    moreover have "x < of_int (n + 1)" using hi by simp
    then have "\<lfloor>x\<rfloor> < n + 1" by (simp only: floor_less_iff)
    ultimately show ?thesis by linarith
  qed
  then show ?thesis
  proof
    assume f: "\<lfloor>x\<rfloor> = n"
    show ?thesis using hi unfolding rhe_def Let_def f by simp
  next
    assume f: "\<lfloor>x\<rfloor> = n - 1"
    show ?thesis using lo unfolding rhe_def Let_def f by simp
  qed
qed

lemma rhe_mono:
  assumes "x \<le> y"
  shows "rhe x \<le> rhe y"
proof (rule ccontr)
  assume n: "\<not> rhe x \<le> rhe y"
  then have "rhe y + 1 \<le> rhe x" by simp
  then have gt: "(of_int (rhe y) :: rat) + 1 \<le> of_int (rhe x)"
    by (metis of_int_1 of_int_add of_int_le_iff)
  have ex: "\<bar>of_int (rhe x) - x\<bar> \<le> 1/2" and ey: "\<bar>of_int (rhe y) - y\<bar> \<le> 1/2"
    by (rule rhe_err)+
  have "x = y" using ex ey gt assms by (simp add: abs_le_iff)
  then show False using n by simp
qed

lemma rhe_minus: "rhe (- x) = - rhe x"
proof (cases "x = of_int \<lfloor>x\<rfloor>")
  case True
  then have "- x = of_int (- \<lfloor>x\<rfloor>)" by simp
  then have "rhe (- x) = - \<lfloor>x\<rfloor>" by (metis rhe_of_int)
  moreover have "rhe x = \<lfloor>x\<rfloor>" by (metis True rhe_of_int)
  ultimately show ?thesis by simp
next
  case False
  have b: "of_int \<lfloor>x\<rfloor> < x" "x < of_int \<lfloor>x\<rfloor> + 1" using False by linarith+
  have "of_int (- \<lfloor>x\<rfloor> - 1) \<le> - x" "- x < of_int (- \<lfloor>x\<rfloor> - 1) + 1" using b by simp_all
  then have fm: "\<lfloor>- x\<rfloor> = - \<lfloor>x\<rfloor> - 1" by (simp only: floor_unique)
  show ?thesis unfolding rhe_def Let_def fm using b by auto
qed

subsection \<open>The binary exponent\<close>

lemma pow2_le_of_nat:
  assumes "2 ^ j \<le> (n::nat)"
  shows "(2::rat) ^ j \<le> of_nat n"
proof -
  have "(of_nat (2 ^ j) :: rat) \<le> of_nat n" using assms by (simp only: of_nat_le_iff)
  then show ?thesis by simp
qed

lemma of_nat_less_pow2:
  assumes "(n::nat) < 2 ^ j"
  shows "(of_nat n :: rat) + 1 \<le> 2 ^ j"
proof -
  have "Suc n \<le> 2 ^ j" using assms by simp
  then have "(of_nat (Suc n) :: rat) \<le> of_nat (2 ^ j)" by (simp only: of_nat_le_iff)
  then show ?thesis by simp
qed

lemma expo_bounds:
  assumes "x \<noteq> 0"
  shows "2 powi expo x \<le> \<bar>x\<bar>" and "\<bar>x\<bar> < 2 powi (expo x + 1)"
proof -
  define a where "a = \<bar>x\<bar>"
  have apos: "0 < a" using assms by (simp add: a_def)
  have "2 powi expo x \<le> a \<and> a < 2 powi (expo x + 1)"
  proof (cases "1 \<le> a")
    case True
    define n where "n = nat \<lfloor>a\<rfloor>"
    define k where "k = floorlog 2 n"
    have npos: "0 < n" using True by (simp add: n_def)
    have fb: "2 ^ (k - 1) \<le> n" "n < 2 ^ k" using floorlog_bounds [of n 2] npos by (simp_all add: k_def)
    have kpos: "0 < k" using fb(2) npos by (cases k) auto
    have e: "expo x = int k - 1" using True by (simp add: expo_def a_def n_def k_def)
    have na: "of_nat n \<le> a" "a < of_nat n + 1" using True unfolding n_def by linarith+
    have "int k - 1 = int (k - 1)" using kpos by simp
    then have q1: "(2::rat) powi (int k - 1) = 2 ^ (k - 1)" by (simp only: power_int_of_nat)
    have q2: "(2::rat) ^ (k - 1) \<le> of_nat n" using fb(1) by (rule pow2_le_of_nat)
    have q3: "(of_nat n :: rat) + 1 \<le> 2 ^ k" using fb(2) by (rule of_nat_less_pow2)
    have q4: "(2::rat) powi (int k - 1 + 1) = 2 ^ k" by simp
    have "2 powi expo x \<le> a" unfolding e q1 using q2 na(1) by (rule order_trans)
    moreover have "a < 2 powi (expo x + 1)" unfolding e q4 using na(2) q3 by (rule less_le_trans)
    ultimately show ?thesis by simp
  next
    case False
    define m where "m = \<lceil>1 / a\<rceil>"
    define n where "n = nat (m - 1)"
    define k where "k = floorlog 2 n"
    have "1 < 1 / a" using False apos by simp
    then have m2: "2 \<le> m" unfolding m_def by linarith
    have npos: "0 < n" using m2 by (simp add: n_def)
    have fb: "2 ^ (k - 1) \<le> n" "n < 2 ^ k" using floorlog_bounds [of n 2] npos by (simp_all add: k_def)
    have kpos: "0 < k" using fb(2) npos by (cases k) auto
    have e: "expo x = - int k" using False by (simp add: expo_def a_def [symmetric] n_def k_def m_def)
    have ma: "1 / a \<le> of_int m" "of_int m - 1 < 1 / a" unfolding m_def by linarith+
    have nm: "(of_nat n :: rat) = of_int m - 1" using m2 by (simp add: n_def)
    have p1: "(2::rat) ^ (k - 1) \<le> of_nat n" using fb(1) by (rule pow2_le_of_nat)
    have p2: "(of_nat n :: rat) + 1 \<le> 2 ^ k" using fb(2) by (rule of_nat_less_pow2)
    have lo: "1 / a \<le> 2 ^ k" using p2 nm ma by linarith
    have hi: "2 ^ (k - 1) < 1 / a" using p1 nm ma by linarith
    have r1: "1 / 2 ^ k \<le> a"
    proof -
      have "1 \<le> a * 2 ^ k" using lo apos by (simp add: field_simps)
      then show ?thesis by (simp add: field_simps)
    qed
    have r2: "a < 1 / 2 ^ (k - 1)"
    proof -
      have "a * 2 ^ (k - 1) < 1" using hi apos by (simp add: field_simps)
      then show ?thesis by (simp add: field_simps)
    qed
    have q1: "(2::rat) powi (- int k) = 1 / 2 ^ k" by (simp add: power_int_minus_divide)
    have "- int k + 1 = - int (k - 1)" using kpos by simp
    then have q2: "(2::rat) powi (- int k + 1) = 1 / 2 ^ (k - 1)"
      by (simp only: power_int_minus_divide power_int_of_nat)
    have "2 powi expo x \<le> a" unfolding e q1 by (rule r1)
    moreover have "a < 2 powi (expo x + 1)" unfolding e q2 by (rule r2)
    ultimately show ?thesis by simp
  qed
  then show "2 powi expo x \<le> \<bar>x\<bar>" and "\<bar>x\<bar> < 2 powi (expo x + 1)" by (simp_all add: a_def)
qed

subsection \<open>Rounding to binary64\<close>

lemma fl_zero: "fl 0 = 0"
  by (simp add: fl_def)

lemma expo_minus: "expo (- x) = expo x"
  by (simp add: expo_def)

lemma fl_minus: "fl (- x) = - fl x"
  by (simp add: fl_def expo_minus Let_def rhe_minus)

lemma ulp_pos: "0 < (2::rat) powi k"
  by (simp add: zero_less_power_int)

lemma ulp_split: "(2::rat) powi e = 2 ^ 52 * 2 powi (e - 52)"
proof -
  have "(2::rat) powi (52 + (e - 52)) = 2 powi 52 * 2 powi (e - 52)"
    by (rule power_int_add) simp
  then show ?thesis by simp
qed

lemma scaled_bounds:
  assumes "0 < x"
  shows "2 ^ 52 \<le> x / 2 powi (expo x - 52)" and "x / 2 powi (expo x - 52) < 2 ^ 53"
proof -
  define u where "u = (2::rat) powi (expo x - 52)"
  have upos: "0 < u" unfolding u_def by (rule ulp_pos)
  have x0: "x \<noteq> 0" using assms by simp
  have lo: "2 powi expo x \<le> x" using expo_bounds(1) [OF x0] assms by simp
  have hi: "x < 2 powi (expo x + 1)" using expo_bounds(2) [OF x0] assms by simp
  have s1: "(2::rat) powi expo x = 2 ^ 52 * u" unfolding u_def by (rule ulp_split)
  have s2: "(2::rat) powi (expo x + 1) = 2 ^ 53 * u"
    using ulp_split [of "expo x + 1"] power_int_add_1 [of "2::rat" "expo x - 52"]
    by (simp add: u_def)
  have "2 ^ 52 * u \<le> x" using lo s1 by simp
  then show "2 ^ 52 \<le> x / 2 powi (expo x - 52)"
    using upos by (simp add: u_def [symmetric] pos_le_divide_eq)
  have "x < 2 ^ 53 * u" using hi s2 by simp
  then show "x / 2 powi (expo x - 52) < 2 ^ 53"
    using upos by (simp add: u_def [symmetric] pos_divide_less_eq)
qed


lemma fl_pos_bounds:
  assumes "0 < x"
  shows "2 powi expo x \<le> fl x" and "fl x \<le> 2 powi (expo x + 1)"
proof -
  define u where "u = (2::rat) powi (expo x - 52)"
  define r where "r = rhe (x / u)"
  have upos: "0 < u" unfolding u_def by (rule ulp_pos)
  have f: "fl x = of_int r * u" using assms by (simp add: fl_def Let_def u_def r_def)
  have "rhe (of_int (2 ^ 52)) \<le> rhe (x / u)"
    using scaled_bounds(1) [OF assms] by (intro rhe_mono) (simp add: u_def)
  then have lo: "2 ^ 52 \<le> r" by (simp only: rhe_of_int r_def)
  have "rhe (x / u) \<le> rhe (of_int (2 ^ 53))"
    using scaled_bounds(2) [OF assms] by (intro rhe_mono) (simp add: u_def)
  then have hi: "r \<le> 2 ^ 53" by (simp only: rhe_of_int r_def)
  have lo': "(2 ^ 52 :: rat) \<le> of_int r" using lo by (metis of_int_le_iff of_int_numeral of_int_power)
  have hi': "(of_int r :: rat) \<le> 2 ^ 53" using hi by (metis of_int_le_iff of_int_numeral of_int_power)
  have s1: "(2::rat) powi expo x = 2 ^ 52 * u" unfolding u_def by (rule ulp_split)
  have s2: "(2::rat) powi (expo x + 1) = 2 ^ 53 * u"
    using ulp_split [of "expo x + 1"] power_int_add_1 [of "2::rat" "expo x - 52"]
    by (simp add: u_def)
  show "2 powi expo x \<le> fl x" unfolding s1 f using lo' upos by (intro mult_right_mono) simp_all
  show "fl x \<le> 2 powi (expo x + 1)" unfolding s2 f using hi' upos by (intro mult_right_mono) simp_all
qed

lemma expo_le:
  assumes "0 < x" and "x \<le> y"
  shows "expo x \<le> expo y"
proof -
  have x0: "x \<noteq> 0" and y0: "y \<noteq> 0" using assms by simp_all
  have "2 powi expo x \<le> x" using expo_bounds(1) [OF x0] assms by simp
  moreover have "y < 2 powi (expo y + 1)" using expo_bounds(2) [OF y0] assms by simp
  ultimately have lt: "(2::rat) powi expo x < 2 powi (expo y + 1)" using assms by linarith
  show ?thesis
  proof (rule ccontr)
    assume "\<not> expo x \<le> expo y"
    then have "expo y + 1 \<le> expo x" by simp
    then have "(2::rat) powi (expo y + 1) \<le> 2 powi expo x" by (rule power_int_increasing) simp
    with lt show False by simp
  qed
qed


lemma fl_nonneg:
  assumes "0 \<le> x"
  shows "0 \<le> fl x"
proof (cases "x = 0")
  case True
  then show ?thesis by (simp add: fl_zero)
next
  case False
  then have "0 < x" using assms by simp
  then have "2 powi expo x \<le> fl x" by (rule fl_pos_bounds(1))
  moreover have "0 < (2::rat) powi expo x" by (rule ulp_pos)
  ultimately show ?thesis by linarith
qed

lemma fl_mono_pos:
  assumes "0 < x" and "x \<le> y"
  shows "fl x \<le> fl y"
proof (cases "expo x = expo y")
  case True
  define u where "u = (2::rat) powi (expo x - 52)"
  have upos: "0 < u" unfolding u_def by (rule ulp_pos)
  have fx: "fl x = of_int (rhe (x / u)) * u" using assms by (simp add: fl_def Let_def u_def)
  have fy: "fl y = of_int (rhe (y / u)) * u" using assms True by (simp add: fl_def Let_def u_def)
  have "x / u \<le> y / u" using assms(2) upos by (simp add: divide_right_mono)
  then have "rhe (x / u) \<le> rhe (y / u)" by (rule rhe_mono)
  then have "(of_int (rhe (x / u)) :: rat) \<le> of_int (rhe (y / u))" by (simp only: of_int_le_iff)
  then show ?thesis unfolding fx fy using upos by (intro mult_right_mono) simp_all
next
  case False
  have ypos: "0 < y" using assms by simp
  have "expo x \<le> expo y" using assms by (rule expo_le)
  with False have "expo x + 1 \<le> expo y" by simp
  then have "(2::rat) powi (expo x + 1) \<le> 2 powi expo y" by (rule power_int_increasing) simp
  moreover have "fl x \<le> 2 powi (expo x + 1)" using assms(1) by (rule fl_pos_bounds(2))
  moreover have "2 powi expo y \<le> fl y" using ypos by (rule fl_pos_bounds(1))
  ultimately show ?thesis by linarith
qed

lemma fl_mono:
  assumes "x \<le> y"
  shows "fl x \<le> fl y"
proof -
  consider "0 < x" | "x \<le> 0" "0 \<le> y" | "y < 0" by linarith
  then show ?thesis
  proof cases
    case 1
    then show ?thesis using assms by (rule fl_mono_pos)
  next
    case 2
    have "0 \<le> fl (- x)" using 2(1) by (intro fl_nonneg) simp
    then have "fl x \<le> 0" by (simp add: fl_minus)
    moreover have "0 \<le> fl y" using 2(2) by (rule fl_nonneg)
    ultimately show ?thesis by linarith
  next
    case 3
    have "fl (- y) \<le> fl (- x)" using 3 assms by (intro fl_mono_pos) simp_all
    then show ?thesis by (simp add: fl_minus)
  qed
qed

lemma fl_err: "\<bar>fl x - x\<bar> \<le> \<bar>x\<bar> / 2 ^ 53"
proof (cases "x = 0")
  case True
  then show ?thesis by (simp add: fl_zero)
next
  case False
  define u where "u = (2::rat) powi (expo x - 52)"
  have upos: "0 < u" unfolding u_def by (rule ulp_pos)
  have f: "fl x = of_int (rhe (x / u)) * u" using False by (simp add: fl_def Let_def u_def)
  have "fl x - x = (of_int (rhe (x / u)) - x / u) * u" using upos by (simp add: f field_simps)
  then have "\<bar>fl x - x\<bar> = \<bar>of_int (rhe (x / u)) - x / u\<bar> * u"
    using upos by (simp add: abs_mult)
  also have "\<dots> \<le> 1 / 2 * u" using rhe_err [of "x / u"] upos by (intro mult_right_mono) simp_all
  finally have e1: "\<bar>fl x - x\<bar> \<le> u / 2" by simp
  have "(2::rat) powi expo x = 2 ^ 52 * u" unfolding u_def by (rule ulp_split)
  then have "2 ^ 52 * u \<le> \<bar>x\<bar>" using expo_bounds(1) [OF False] by simp
  then have "u / 2 \<le> \<bar>x\<bar> / 2 ^ 53" by simp
  with e1 show ?thesis by linarith
qed

lemma fl_of_int:
  assumes "\<bar>n\<bar> < 2 ^ 53"
  shows "fl (of_int n) = of_int n"
proof (cases "n = 0")
  case True
  then show ?thesis by (simp add: fl_zero)
next
  case False
  define x :: rat where "x = of_int n"
  have x0: "x \<noteq> 0" using False by (simp add: x_def)
  define d where "d = 52 - expo x"
  have "2 powi expo x \<le> \<bar>x\<bar>" by (rule expo_bounds(1) [OF x0])
  moreover have "\<bar>x\<bar> < 2 ^ 53"
  proof -
    have "(of_int \<bar>n\<bar> :: rat) < of_int (2 ^ 53)" using assms by (simp only: of_int_less_iff)
    then show ?thesis by (simp add: x_def)
  qed
  ultimately have lt: "(2::rat) powi expo x < 2 powi 53" by simp
  have e52: "expo x \<le> 52"
  proof (rule ccontr)
    assume "\<not> expo x \<le> 52"
    then have "53 \<le> expo x" by simp
    then have "(2::rat) powi 53 \<le> 2 powi expo x" by (rule power_int_increasing) simp
    with lt show False by simp
  qed
  then have d0: "0 \<le> d" by (simp add: d_def)
  have u: "(2::rat) powi (expo x - 52) = 1 / 2 ^ nat d"
  proof -
    have "expo x - 52 = - int (nat d)" using d0 by (simp add: d_def)
    then show ?thesis by (simp only: power_int_minus_divide power_int_of_nat)
  qed
  have "x / (1 / 2 ^ nat d) = of_int (n * 2 ^ nat d)" by (simp add: x_def)
  then have "rhe (x / (1 / 2 ^ nat d)) = n * 2 ^ nat d" by (simp only: rhe_of_int)
  then have "fl x = of_int (n * 2 ^ nat d) * (1 / 2 ^ nat d)"
    using x0 by (simp add: fl_def Let_def u)
  then show ?thesis by (simp add: x_def)
qed

section \<open>Properties of the rule cascade\<close>

text \<open>
  Outside the Low/Moderate boundary the cascade is not monotone in fever: a patient with
  low mobility late in recovery is High at 98 degrees (rule 5) and Moderate at 101
  degrees (rule 3 comes first).
\<close>

lemma risk_label_rule5_not_monotone:
  "risk_label 0 0 98 2 0 20 0 = 2 \<and> risk_label 0 0 101 2 0 20 0 = 1"
  by code_simp

text \<open>
  C1: two inputs that differ only in fever, both fevers in [98, 104], the other features
  at the Low/Moderate boundary (with a fever of 98 the cascade assigns Low or Moderate):
  the input with the higher fever is never assigned a strictly lower risk.
\<close>

theorem risk_label_fever_monotone:
  assumes "98 \<le> f1" and "f1 \<le> f2" and "f2 \<le> 104"
    and "risk_label p sw 98 m w d t \<le> 1"
  shows "risk_label p sw f1 m w d t \<le> risk_label p sw f2 m w d t"
  using assms unfolding risk_label_def
  by (auto split: if_splits)

theorem risk_label_fever_monotone_witness:
  "(98::rat) \<le> 99 \<and> (99::rat) \<le> 102 \<and> (102::rat) \<le> 104
   \<and> risk_label 0 0 98 5 0 3 0 \<le> 1
   \<and> risk_label 0 0 99 5 0 3 0 \<le> risk_label 0 0 102 5 0 3 0
   \<and> risk_label 0 0 99 5 0 3 0 = 0 \<and> risk_label 0 0 102 5 0 3 0 = 3"
proof -
  have h: "risk_label 0 0 98 5 0 3 0 \<le> 1" by code_simp
  have v: "risk_label 0 0 99 5 0 3 0 = 0 \<and> risk_label 0 0 102 5 0 3 0 = 3" by code_simp
  have "risk_label 0 0 99 5 0 3 0 \<le> risk_label 0 0 102 5 0 3 0"
    using risk_label_fever_monotone [of 99 102 0 0 5 0 3 0] h by simp
  with h v show ?thesis by simp
qed

section \<open>Properties of the rehab plan selector\<close>

lemma rehab_row:
  "map_of REHAB_PLANS s =
     (if s = ''Minor Surgery'' then
        Some [(''Low'', minor_low), (''Moderate'', minor_moderate),
              (''High'', minor_high), (''Critical'', minor_critical)]
      else if s = ''Orthopedic Surgery'' then
        Some [(''Low'', ortho_low), (''Moderate'', ortho_moderate),
              (''High'', ortho_high), (''Critical'', ortho_critical)]
      else if s = ''General Discharge'' then
        Some [(''Low'', general_low), (''Moderate'', general_moderate),
              (''High'', general_high), (''Critical'', general_critical)]
      else if s = ''Injury Recovery'' then
        Some [(''Low'', injury_low), (''Moderate'', injury_moderate),
              (''High'', injury_high), (''Critical'', injury_critical)]
      else if s = ''Stroke Rehab'' then
        Some [(''Low'', stroke_low), (''Moderate'', stroke_moderate),
              (''High'', stroke_high), (''Critical'', stroke_critical)]
      else None)"
  by (simp add: REHAB_PLANS_def)

text \<open>
  An unknown pathway and an unknown tier at day 30: the Low cell of General Discharge,
  in the functional-recovery phase.
\<close>

lemma get_rehab_plan_fallback_example:
  "get_rehab_plan ''Dental Surgery'' ''Severe'' 30 =
     Inr (plan.extend general_low
            \<lparr>recovery_phase = ''Functional Recovery (Days 22'' @ en_dash @ ''42)'',
             phase_note = ''Increase activity gradually. Focus on functional tasks.''\<rparr>)"
  unfolding get_rehab_plan_def rehab_row by (simp add: dict_get_def)

text \<open>
  C7: for every pathway, risk level and day count \<^verbatim>\<open>get_rehab_plan\<close> returns (it never
  raises) the cell of the static table for the pathway and the tier, with General
  Discharge in place of an unknown pathway and Low in place of an unknown tier, and
  overlays the phase and note that the day count alone determines by the breakpoints 7,
  21 and 42. The result is a function of the three arguments.
\<close>

theorem get_rehab_plan_cell:
  "\<exists>p. rehab_cell (if known_pathway s then s else ''General Discharge'')
                   (if known_tier r then r else ''Low'') = Some p
       \<and> get_rehab_plan s r d =
           Inr (plan.extend p \<lparr>recovery_phase = fst (phase_of d), phase_note = snd (phase_of d)\<rparr>)"
  unfolding get_rehab_plan_def rehab_cell_def rehab_row known_pathway_def known_tier_def phase_of_def
  by (simp add: dict_get_def Let_def)

section \<open>Properties of the alert rules\<close>

lemma lit_100_4_value: "lit_100_4 = 3532510957718733 / 35184372088832"
  by code_simp

lemma lit_98_6_value: "lit_98_6 = 3469179087958835 / 35184372088832"
  by code_simp

lemma fever_threshold:
  assumes "fl f = f"
  shows "(lit_100_4 \<le> f) = (1004 / 10 \<le> f)"
proof
  assume "lit_100_4 \<le> f"
  then show "1004 / 10 \<le> f" unfolding lit_100_4_value by linarith
next
  assume "1004 / 10 \<le> f"
  then have "fl (1004 / 10) \<le> fl f" by (rule fl_mono)
  then show "lit_100_4 \<le> f" using assms by (simp add: lit_100_4_def)
qed

lemma last_n_3:
  assumes "3 \<le> length xs"
  shows "\<exists>ys x y z. xs = ys @ [x, y, z]"
proof -
  obtain ys zs where s: "xs = ys @ zs" "length zs = 3"
    using assms by (metis append_take_drop_id length_drop diff_diff_cancel)
  then obtain x y z where "zs = [x, y, z]"
    by (metis (no_types, opaque_lifting) length_0_conv length_Suc_conv numeral_3_eq_3)
  with s show ?thesis by blast
qed

lemma fever_default_low: "\<not> lit_100_4 \<le> lit_98_6"
  unfolding lit_100_4_value lit_98_6_value by simp

lemma latest_rule:
  assumes "case fever z of None \<Rightarrow> True | Some f \<Rightarrow> fl f = f"
  shows "(lit_100_4 \<le> dict_get (fever z) lit_98_6)
         = (case fever z of None \<Rightarrow> False | Some f \<Rightarrow> 1004 / 10 \<le> f)"
  using assms by (cases "fever z") (simp_all add: dict_get_def fever_default_low fever_threshold)

lemma check_alerts_long:
  assumes "readable (ys @ [x, y, z])"
  shows "\<exists>as. check_alerts (ys @ [x, y, z]) pt rr = Inr as \<and>
           map alert_type as =
             (if risk_index rr \<ge> 3 then [''CRITICAL''] else [])
             @ (if escalating (ys @ [x, y, z]) then [''ESCALATION''] else [])
             @ (if fever_with_swelling (ys @ [x, y, z]) then [''FEVER_SWELLING''] else [])"
proof -
  have l3: "last_n 3 (ys @ [x, y, z]) = [x, y, z]" and l1: "last_n 1 (ys @ [x, y, z]) = [z]"
    by (simp_all add: last_n_def)
  from assms obtain a b c where p: "pain_score x = Some a" "pain_score y = Some b" "pain_score z = Some c"
    unfolding readable_def l3 by auto
  from assms have f: "case fever z of None \<Rightarrow> True | Some f \<Rightarrow> fl f = f"
    unfolding readable_def l1 by simp
  show ?thesis
    unfolding check_alerts_def escalating_def fever_with_swelling_def l3
    by (simp add: p latest_rule [OF f] Let_def)
qed

lemma check_alerts_short:
  assumes "readable logs" and "length logs < 3"
  shows "\<exists>as. check_alerts logs pt rr = Inr as \<and>
           map alert_type as =
             (if risk_index rr \<ge> 3 then [''CRITICAL''] else [])
             @ (if escalating logs then [''ESCALATION''] else [])
             @ (if fever_with_swelling logs then [''FEVER_SWELLING''] else [])"
proof (cases "logs = []")
  case True
  then show ?thesis
    unfolding check_alerts_def escalating_def fever_with_swelling_def
    by (simp add: Let_def empty_dict_def dict_get_def fever_default_low)
next
  case False
  then have "last_n 1 logs = [last logs]"
    by (cases logs rule: rev_cases) (simp_all add: last_n_def)
  with assms(1) have f: "case fever (last logs) of None \<Rightarrow> True | Some f \<Rightarrow> fl f = f"
    unfolding readable_def by simp
  show ?thesis
    using assms(2) False
    unfolding check_alerts_def escalating_def fever_with_swelling_def
    by (simp add: latest_rule [OF f] Let_def)
qed

lemma check_alerts_types:
  assumes "readable logs"
  shows "\<exists>as. check_alerts logs pt rr = Inr as \<and>
           map alert_type as =
             (if risk_index rr \<ge> 3 then [''CRITICAL''] else [])
             @ (if escalating logs then [''ESCALATION''] else [])
             @ (if fever_with_swelling logs then [''FEVER_SWELLING''] else [])"
proof (cases "length logs < 3")
  case True
  with assms show ?thesis by (rule check_alerts_short)
next
  case False
  then have "3 \<le> length logs" by simp
  then obtain ys x y z where "logs = ys @ [x, y, z]" using last_n_3 by blast
  with assms show ?thesis using check_alerts_long by blast
qed

lemma fl_small_int [simp]: "fl 98 = 98" "fl 101 = 101"
  using fl_of_int [of 98] fl_of_int [of 101] by simp_all

lemma example_logs:
  fixes e f :: bool
  defines "logs \<equiv> [report 3 98 ''None'', report 5 98 ''None'',
                     report (if e then 7 else 5) (if f then 101 else 98) ''Severe'']"
  shows "readable logs" and "escalating logs = e" and "fever_with_swelling logs = f"
  unfolding logs_def readable_def escalating_def fever_with_swelling_def last_n_def report_def DailyLog_def
  by (simp_all)

text \<open>
  C4: on a history whose entries can be read, \<^verbatim>\<open>check_alerts\<close> returns the alerts of
  exactly the rules that hold, in the order CRITICAL, ESCALATION, FEVER\_SWELLING:
  CRITICAL exactly when the risk index is at least 3, ESCALATION exactly when there are
  at least three entries and the last three pain scores are strictly increasing,
  FEVER\_SWELLING exactly when the latest entry has fever at least 100.4 and moderate or
  severe swelling. The rules are independent: every subset of the three is the outcome
  of some evaluation. The pain scores 3, 5, 7 escalate and 7, 5, 3 do not.
\<close>

theorem check_alerts_rules:
  "(readable logs \<longrightarrow>
     (\<exists>as. check_alerts logs pt rr = Inr as \<and>
        map alert_type as =
          (if risk_index rr \<ge> 3 then [''CRITICAL''] else [])
          @ (if escalating logs then [''ESCALATION''] else [])
          @ (if fever_with_swelling logs then [''FEVER_SWELLING''] else [])))
   \<and> (\<forall>c e f. \<exists>logs' rr' as.
         check_alerts logs' pt rr' = Inr as \<and>
         ((''CRITICAL'' \<in> set (map alert_type as)) = c) \<and>
         ((''ESCALATION'' \<in> set (map alert_type as)) = e) \<and>
         ((''FEVER_SWELLING'' \<in> set (map alert_type as)) = f))
   \<and> escalating [report 3 98 ''None'', report 5 98 ''None'', report 7 98 ''None'']
   \<and> \<not> escalating [report 7 98 ''None'', report 5 98 ''None'', report 3 98 ''None'']"
proof (intro conjI impI allI)
  assume "readable logs"
  then show "\<exists>as. check_alerts logs pt rr = Inr as \<and>
        map alert_type as =
          (if risk_index rr \<ge> 3 then [''CRITICAL''] else [])
          @ (if escalating logs then [''ESCALATION''] else [])
          @ (if fever_with_swelling logs then [''FEVER_SWELLING''] else [])"
    by (rule check_alerts_types)
next
  fix c e f :: bool
  define logs' where "logs' = [report 3 98 ''None'', report 5 98 ''None'',
                     report (if e then 7 else 5) (if f then 101 else 98) ''Severe'']"
  define rr' where "rr' = \<lparr>risk_level = ''Low'', risk_index = (if c then 3 else 0), confidence = 0,
                            color = ''#22c55e'', probabilities = []\<rparr>"
  have r: "readable logs'" and e: "escalating logs' = e" and f: "fever_with_swelling logs' = f"
    unfolding logs'_def by (rule example_logs)+
  from check_alerts_types [OF r, of pt rr'] obtain as where
    a: "check_alerts logs' pt rr' = Inr as" and
    t: "map alert_type as =
          (if risk_index rr' \<ge> 3 then [''CRITICAL''] else [])
          @ (if escalating logs' then [''ESCALATION''] else [])
          @ (if fever_with_swelling logs' then [''FEVER_SWELLING''] else [])" by blast
  have "((''CRITICAL'' \<in> set (map alert_type as)) = c) \<and>
         ((''ESCALATION'' \<in> set (map alert_type as)) = e) \<and>
         ((''FEVER_SWELLING'' \<in> set (map alert_type as)) = f)"
    unfolding t e f by (simp add: rr'_def)
  with a show "\<exists>logs' rr' as.
         check_alerts logs' pt rr' = Inr as \<and>
         ((''CRITICAL'' \<in> set (map alert_type as)) = c) \<and>
         ((''ESCALATION'' \<in> set (map alert_type as)) = e) \<and>
         ((''FEVER_SWELLING'' \<in> set (map alert_type as)) = f)" by blast
next
  show "escalating [report 3 98 ''None'', report 5 98 ''None'', report 7 98 ''None'']"
    by (simp add: escalating_def last_n_def report_def DailyLog_def)
next
  show "\<not> escalating [report 7 98 ''None'', report 5 98 ''None'', report 3 98 ''None'']"
    by (simp add: escalating_def last_n_def report_def DailyLog_def)
qed

theorem check_alerts_rules_witness:
  "readable [report 3 98 ''None'', report 5 98 ''None'', report 7 101 ''Severe'']
   \<and> (\<exists>as. check_alerts [report 3 98 ''None'', report 5 98 ''None'', report 7 101 ''Severe'']
               \<lparr>name = ''Asha''\<rparr>
               \<lparr>risk_level = ''Critical'', risk_index = 3, confidence = 90,
                color = ''#ef4444'', probabilities = []\<rparr> = Inr as
          \<and> map alert_type as = [''CRITICAL'', ''ESCALATION'', ''FEVER_SWELLING''])"
proof -
  let ?logs = "[report 3 98 ''None'', report 5 98 ''None'', report 7 101 ''Severe'']"
  have r: "readable ?logs" and e: "escalating ?logs" and f: "fever_with_swelling ?logs"
    using example_logs [of True True] by simp_all
  from check_alerts_rules [of ?logs "\<lparr>name = ''Asha''\<rparr>"
      "\<lparr>risk_level = ''Critical'', risk_index = 3, confidence = 90,
        color = ''#ef4444'', probabilities = []\<rparr>"] r e f
  show ?thesis by simp
qed

section \<open>Properties of the feature encoding\<close>

text \<open>
  C8: for a report whose categorical fields are arbitrary strings the encoding inside
  \<^verbatim>\<open>predict_risk\<close> never fails. A recognised category has its fixed code; any other
  swelling, wound or trend string has the code of None, Clean/Healing or Stable (all 0),
  any other pathway the code 2 of General Discharge. The numeric fields are passed on
  unchanged, whatever their value.
\<close>

theorem feature_row_total:
  "feature_row (risk_features p sw f m w a t d s) =
     Inr (p, swelling_code sw, f, m, wound_code w, a, d, pathway_code s, trend_code t)
   \<and> swelling_code ''None'' = 0 \<and> wound_code ''Clean/Healing'' = 0
   \<and> trend_code ''Stable'' = 0 \<and> pathway_code ''General Discharge'' = 2"
  by (simp add: feature_row_def risk_features_def swelling_code_def wound_code_def trend_code_def
      pathway_code_def swelling_map_def wound_map_def trend_map_def surgery_map_def dict_get_def)

section \<open>Properties of the recovery score\<close>

lemma fl_int_sum:
  assumes "\<bar>a + b\<bar> < 2 ^ 53"
  shows "fl (of_int a + of_int b) = of_int (a + b)"
  using fl_of_int [OF assms] by simp

lemma round_dec1_int: "round_dec1 (of_int n) = of_int n"
proof -
  have "rhe (of_int n * 10) = n * 10" using rhe_of_int [of "n * 10"] by simp
  then show ?thesis by (simp add: round_dec1_def)
qed

lemma py_round1_int:
  assumes "\<bar>n\<bar> < 2 ^ 53"
  shows "py_round1 (of_int n) = of_int n"
proof -
  have "py_round1 (of_int n) = fl (round_dec1 (of_int n))"
    by (simp add: py_round1_def round_dec1_def)
  then show ?thesis using fl_of_int [OF assms] by (simp add: round_dec1_int)
qed

lemma recovery_one:
  assumes "\<bar>p\<bar> \<le> 10 ^ 15" and "\<bar>m\<bar> \<le> 10 ^ 15"
  shows "get_recovery_score [DailyLog p sw f m w a t] =
           round_dec1 (clamp100 (50 + 3 * (10 - of_int p) + 2 * of_int m))"
proof -
  define x where "x = (10 - p) * 3"
  define y where "y = m * 2"
  have bx: "\<bar>x\<bar> < 2 ^ 53" "\<bar>50 + x\<bar> < 2 ^ 53" using assms by (simp_all add: x_def)
  have bz: "\<bar>y\<bar> < 2 ^ 53" "\<bar>(50 + x) + y\<bar> < 2 ^ 53" using assms by (simp_all add: x_def y_def)
  have s1: "fl (50 + fl (of_int x)) = of_int (50 + x)"
    using fl_of_int [OF bx(1)] fl_int_sum [OF bx(2)] by simp
  have s2: "fl (of_int (50 + x) + fl (of_int y)) = of_int (50 + x + y)"
    using fl_of_int [OF bz(1)] fl_int_sum [OF bz(2)] by simp
  have s3: "py_round1 (of_int (50 + x + y)) = of_int (50 + x + y)"
    using bz(2) by (rule py_round1_int)
  have n1: "(30::rat) - of_int (p * 3) = of_int x" by (simp add: x_def)
  have "get_recovery_score [DailyLog p sw f m w a t] = min (max (of_int (50 + x + y)) 0) 100"
    unfolding get_recovery_score_def
    by (simp add: DailyLog_def dict_get_def Let_def y_def [symmetric] n1 s1 s2 s3
        del: of_int_add of_int_mult)
  also have "\<dots> = clamp100 (of_int (50 + x + y))" by (simp add: clamp100_def)
  also have "\<dots> = of_int (if 50 + x + y < 0 then 0 else if 100 < 50 + x + y then 100 else 50 + x + y)"
    by (simp add: clamp100_def)
  also have "\<dots> = round_dec1 (of_int (if 50 + x + y < 0 then 0 else if 100 < 50 + x + y then 100 else 50 + x + y))"
    by (simp only: round_dec1_int)
  also have "\<dots> = round_dec1 (clamp100 (of_int (50 + x + y)))" by (simp add: clamp100_def)
  also have "(of_int (50 + x + y) :: rat) = 50 + 3 * (10 - of_int p) + 2 * of_int m"
    by (simp add: x_def y_def)
  finally show ?thesis .
qed

lemma clamp_int: "of_int (min (max n 0) 100) = round_dec1 (clamp100 (of_int n))"
proof -
  have "clamp100 (of_int n) = of_int (min (max n 0) 100)" by (simp add: clamp100_def)
  then show ?thesis by (simp only: round_dec1_int)
qed

lemma recovery_many:
  assumes "fl f2 = f2"
  shows "get_recovery_score (DailyLog p1 sw1 f1 m1 w1 a1 t1 # mid @ [DailyLog p2 sw2 f2 m2 w2 a2 t2]) =
           round_dec1 (clamp100 (of_int (40 + 5 * (p1 - p2) + 3 * (m2 - m1)
                                         - fever_penalty f2 - swelling_penalty sw2)))"
proof -
  have t: "(lit_100_4 \<le> f2) = (1004 / 10 \<le> f2)" using assms by (rule fever_threshold)
  have "get_recovery_score (DailyLog p1 sw1 f1 m1 w1 a1 t1 # mid @ [DailyLog p2 sw2 f2 m2 w2 a2 t2]) =
          of_int (min (max (40 + 5 * (p1 - p2) + 3 * (m2 - m1)
                                         - fever_penalty f2 - swelling_penalty sw2) 0) 100)"
    unfolding get_recovery_score_def
    by (simp add: DailyLog_def dict_get_def Let_def t fever_penalty_def swelling_penalty_def
        mult.commute)
  then show ?thesis by (simp only: clamp_int)
qed

lemma recovery_range: "0 \<le> get_recovery_score logs \<and> get_recovery_score logs \<le> 100"
  unfolding get_recovery_score_def by (simp add: Let_def)

text \<open>
  C3: the recovery score is the piecewise reference value. No entry: 0. One entry:
  50 + 3 (10 - pain) + 2 mobility, clamped to [0, 100] (for pain and mobility up to
  10^15 in magnitude, where the float additions are exact). Two or more entries, of
  which only the first and the latest are read: 40 + 5 (first pain - latest pain)
  + 3 (latest mobility - first mobility), less 15 when the latest fever (a binary64
  number) is at least 100.4, less 10 when the latest swelling is Moderate or Severe,
  clamped to [0, 100]; rounding to one decimal changes neither value. Every history
  whatsoever has a score in [0, 100].
\<close>

theorem get_recovery_score_reference:
  "get_recovery_score [] = 0
   \<and> (\<bar>p\<bar> \<le> 10 ^ 15 \<and> \<bar>m\<bar> \<le> 10 ^ 15 \<longrightarrow>
        get_recovery_score [DailyLog p sw f m w a t] =
          round_dec1 (clamp100 (50 + 3 * (10 - of_int p) + 2 * of_int m)))
   \<and> (fl f2 = f2 \<longrightarrow>
        get_recovery_score
          (DailyLog p1 sw1 f1 m1 w1 a1 t1 # mid @ [DailyLog p2 sw2 f2 m2 w2 a2 t2]) =
          round_dec1 (clamp100 (of_int (40 + 5 * (p1 - p2) + 3 * (m2 - m1)
                                        - fever_penalty f2 - swelling_penalty sw2))))
   \<and> 0 \<le> get_recovery_score logs \<and> get_recovery_score logs \<le> 100"
  using recovery_one [of p m sw f w a t] recovery_range [of logs]
    recovery_many [of f2 p1 sw1 f1 m1 w1 a1 t1 mid p2 sw2 m2 w2 a2 t2]
  by (simp add: get_recovery_score_def)

theorem get_recovery_score_reference_witness:
  "\<bar>7 :: int\<bar> \<le> 10 ^ 15 \<and> \<bar>4 :: int\<bar> \<le> 10 ^ 15
   \<and> get_recovery_score [DailyLog 7 ''Mild'' 99 4 ''Redness'' 9 ''Stable''] = 67
   \<and> fl 101 = 101
   \<and> get_recovery_score [DailyLog 7 ''Mild'' 99 4 ''Redness'' 9 ''Stable'',
                           DailyLog 9 ''Mild'' 99 2 ''Redness'' 9 ''Stable'',
                           DailyLog 5 ''Severe'' 101 6 ''Redness'' 9 ''Stable''] = 31"
proof -
  have c1: "round_dec1 (clamp100 (50 + 3 * (10 - of_int 7) + 2 * of_int 4)) = 67"
    using round_dec1_int [of 67] by (simp add: clamp100_def)
  have c2: "round_dec1 (clamp100 (of_int (40 + 5 * (7 - 5) + 3 * (6 - 4)
              - fever_penalty 101 - swelling_penalty ''Severe''))) = 31"
    using round_dec1_int [of 31] by (simp add: clamp100_def fever_penalty_def swelling_penalty_def)
  have f: "fl 101 = 101" by simp
  from get_recovery_score_reference [where p = 7 and m = 4 and sw = "''Mild''" and f = 99
      and w = "''Redness''" and a = 9 and t = "''Stable''" and ?f2.0 = 101
      and ?p1.0 = 7 and ?sw1.0 = "''Mild''" and ?f1.0 = 99 and ?m1.0 = 4 and ?w1.0 = "''Redness''"
      and ?a1.0 = 9 and ?t1.0 = "''Stable''"
      and mid = "[DailyLog 9 ''Mild'' 99 2 ''Redness'' 9 ''Stable'']"
      and ?p2.0 = 5 and ?sw2.0 = "''Severe''" and ?m2.0 = 6 and ?w2.0 = "''Redness''"
      and ?a2.0 = 9 and ?t2.0 = "''Stable''" and logs = "[]"]
  show ?thesis using c1 c2 f by simp
qed

section \<open>Properties of the recovery-days estimator\<close>

text \<open>
  The example of the specification: baseline 60, risk Low, pain 0, mobility 10 and 21
  days give a total of 42, 21 days remaining, progress 50.0 and the halfway milestone.
\<close>

lemma predict_recovery_days_example:
  "predict_recovery_days ''Orthopedic Surgery'' ''Low'' 21 0 10 =
     \<lparr>estimated_total_days = 42, days_completed = 21, days_remaining = 21, progress_pct = 50,
      milestone = [CHR 0xF0, CHR 0x9F, CHR 0x93, CHR 0x88] @ '' Halfway there '' @ em_dash
                  @ '' keep going!''\<rparr>
   \<and> exact_total 60 1 0 10 = 42"
  by code_simp

text \<open>
  C6: the estimated total is meant to be the baseline times the risk multiplier times
  (1 + pain/10 * 0.5) times (1 - mobility/10 * 0.3), truncated. The source truncates the
  binary64 product, which can lie just below an integer that the formula reaches: for
  Stroke Rehab (baseline 90), risk Low, pain 0 and mobility 10 the formula gives
  90 * 0.7 = 63 and \<^verbatim>\<open>predict_recovery_days\<close> returns 62.
\<close>

theorem predict_recovery_days_truncation:
  "estimated_total_days (predict_recovery_days ''Stroke Rehab'' ''Low'' 21 0 10) = 62
   \<and> exact_total 90 1 0 10 = 63"
  by code_simp

section \<open>Properties of the pain-pattern analyzer\<close>

text \<open>Fewer than two entries: the terminal result, without error.\<close>

lemma analyze_pain_pattern_insufficient:
  assumes "length logs < 2"
  shows "pattern (analyze_pain_pattern logs) = ''Insufficient Data''"
    and "trend (analyze_pain_pattern logs) = ''unknown''"
  using assms by (simp_all add: analyze_pain_pattern_def)

text \<open>The example of the specification: the scores 8, 7, 6, 5, 4, 3, 2.\<close>

lemma analyze_pain_pattern_example:
  "pattern (analyze_pain_pattern (map (\<lambda>p. report p 98 ''None'') [8, 7, 6, 5, 4, 3, 2]))
     = ''Steady Improvement''
   \<and> trend (analyze_pain_pattern (map (\<lambda>p. report p 98 ''None'') [8, 7, 6, 5, 4, 3, 2]))
     = ''improving''"
  by code_simp

lemma index_diffs:
  "map (\<lambda>i. ps ! (i + 1) - ps ! i) [0..<length ps - 1] = step_diffs ps"
  unfolding step_diffs_def
  by (rule nth_equalityI) (simp_all add: nth_tl)

text \<open>
  With two or more entries the pattern is chosen from the last seven scores by the five
  rules in their order, on the trend difference that the source computes in binary64.
\<close>

lemma analyze_pain_pattern_rules:
  assumes "2 \<le> length logs"
  shows "pattern (analyze_pain_pattern logs) =
           (let ps = map (\<lambda>l. dict_get (pain_score l) 0) (last_n 7 logs)
            in classify (trend_diff_of ps) (step_diffs ps))"
proof -
  define ps where "ps = map (\<lambda>l. dict_get (pain_score l) 0) (last_n 7 logs)"
  define td where "td = trend_diff_of ps"
  define inc where "inc = length (filter (\<lambda>d. 0 < d) (step_diffs ps))"
  define dec where "dec = length (filter (\<lambda>d. d < 0) (step_diffs ps))"
  define st where "st = length (filter (\<lambda>d. d = 0) (step_diffs ps))"
  have l: "\<not> length logs < 2" using assms by simp
  show ?thesis
    unfolding analyze_pain_pattern_def classify_def index_diffs Let_def
      ps_def [symmetric] td_def [symmetric] inc_def [symmetric] dec_def [symmetric]
      st_def [symmetric]
    by (cases "td \<le> - 2 \<and> inc \<le> dec"; cases "2 \<le> td \<and> dec \<le> inc";
        cases "\<bar>td\<bar> \<le> 1 \<and> 2 \<le> st"; cases "0 < inc \<and> 0 < dec")
       (simp_all add: l)
qed

text \<open>
  C5: the analyzer is meant to classify by the trend difference (mean of the last three
  scores minus mean of the first three), "Steady Improvement" first when it is at most
  -2 and no more steps go up than down. The source subtracts two rounded quotients:
  for the scores 4, 4, 3, 3, 2, 2, 1 the means are 5/3 and 11/3, their difference is
  exactly -2, no step goes up, and yet \<^verbatim>\<open>analyze_pain_pattern\<close> computes
  -1.9999999999999998 and answers "Early Recovery".
\<close>

theorem analyze_pain_pattern_rounding:
  "pattern (analyze_pain_pattern (map (\<lambda>p. report p 98 ''None'') [4, 4, 3, 3, 2, 2, 1]))
     = ''Early Recovery''
   \<and> exact_trend_diff [4, 4, 3, 3, 2, 2, 1] = - 2
   \<and> trend_diff_of [4, 4, 3, 3, 2, 2, 1] = - (9007199254740991 / 4503599627370496)"
  by code_simp

end
